theory Spec2Isabelle
  imports Complex_Main
begin

section \<open>Floating-point scalars\<close>

text \<open>
  The ray tracer computes in C++ \<^verbatim>\<open>float\<close>, the binary32 format of IEEE 754. A value is a
  finite real number (\<open>Fin 0\<close> is the positive zero), the negative zero \<open>MZero\<close>, one of
  the two infinities, or NaN. Every arithmetic operation computes the exact real result and
  rounds it to the nearest binary32 number, ties to even, with overflow to an infinity and
  gradual underflow to the subnormal numbers and the signed zeros. Every comparison with
  NaN is false and the two zeros compare equal. A \<^verbatim>\<open>float\<close> literal of the source is
  written as the binary32 number it denotes.
\<close>

datatype flt = Fin real | MZero | PInf | NInf | NaN

text \<open>The classification of a value, its sign bit and its real value (0 for the zeros; the
  value of an infinity or NaN is never used).\<close>

fun is_nan :: "flt \<Rightarrow> bool" where
  "is_nan NaN = True"
| "is_nan a = False"

fun is_finite :: "flt \<Rightarrow> bool" where
  "is_finite (Fin a) = True"
| "is_finite MZero = True"
| "is_finite a = False"

fun is_zero :: "flt \<Rightarrow> bool" where
  "is_zero (Fin a) = (a = 0)"
| "is_zero MZero = True"
| "is_zero a = False"

fun signbit :: "flt \<Rightarrow> bool" where
  "signbit (Fin a) = (a < 0)"
| "signbit MZero = True"
| "signbit NInf = True"
| "signbit a = False"

fun val :: "flt \<Rightarrow> real" where
  "val (Fin a) = a"
| "val a = 0"

definition zero_signed :: "bool \<Rightarrow> flt" where
  "zero_signed negative = (if negative then MZero else Fin 0)"

definition inf_signed :: "bool \<Rightarrow> flt" where
  "inf_signed negative = (if negative then NInf else PInf)"

text \<open>
  Rounding to binary32. \<open>round_even\<close> rounds a real to the nearest integer, ties to
  the even one. \<open>ulp32 x\<close> is the spacing of the binary32 numbers at \<open>x\<close>: 2 to the
  power e - 23 in the binade of exponent e, and 2 to the power -149 below the smallest
  normal number 2 to the power -126. \<open>round32 x\<close> is the multiple of the spacing nearest
  to \<open>x\<close>; it overflows to an infinity from 2 to the power 128, and a result that rounds
  to zero keeps the sign of \<open>x\<close>.
\<close>

definition round_even :: "real \<Rightarrow> int" where
  "round_even x =
     (if x - of_int \<lfloor>x\<rfloor> < 1 / 2 then \<lfloor>x\<rfloor>
      else if 1 / 2 < x - of_int \<lfloor>x\<rfloor> then \<lfloor>x\<rfloor> + 1
      else if even \<lfloor>x\<rfloor> then \<lfloor>x\<rfloor>
      else \<lfloor>x\<rfloor> + 1)"

definition ulp32 :: "real \<Rightarrow> real" where
  "ulp32 x =
     (if \<bar>x\<bar> < 1 / 2 ^ 126 then 1 / 2 ^ 149
      else 2 powr (of_int \<lfloor>log 2 \<bar>x\<bar>\<rfloor> - 23))"

definition round32 :: "real \<Rightarrow> flt" where
  "round32 x =
     (let y = of_int (round_even (x / ulp32 x)) * ulp32 x
      in if 2 ^ 128 \<le> \<bar>y\<bar> then inf_signed (x < 0)
         else if y = 0 then zero_signed (x < 0)
         else Fin y)"

text \<open>The arithmetic operators and comparisons of C++ on \<^verbatim>\<open>float\<close>. A sum of two
  zeros is negative only when both are, an exact zero sum of nonzero numbers is +0, and the
  sign of a product or quotient is the exclusive or of the signs.\<close>

instantiation flt :: "{zero, one, plus, minus, uminus, times, inverse, ord}"
begin

definition zero_flt :: flt where
  "zero_flt = Fin 0"

definition one_flt :: flt where
  "one_flt = Fin 1"

fun uminus_flt :: "flt \<Rightarrow> flt" where
  "uminus_flt (Fin a) = (if a = 0 then MZero else Fin (- a))"
| "uminus_flt MZero = Fin 0"
| "uminus_flt PInf = NInf"
| "uminus_flt NInf = PInf"
| "uminus_flt NaN = NaN"

definition plus_flt :: "flt \<Rightarrow> flt \<Rightarrow> flt" where
  "plus_flt a b =
     (if is_nan a \<or> is_nan b then NaN
      else if \<not> is_finite a then (if \<not> is_finite b \<and> signbit a \<noteq> signbit b then NaN else a)
      else if \<not> is_finite b then b
      else if val a + val b = 0 then zero_signed (signbit a \<and> signbit b)
      else round32 (val a + val b))"

definition minus_flt :: "flt \<Rightarrow> flt \<Rightarrow> flt" where
  "minus_flt a b = a + (- b)"

definition times_flt :: "flt \<Rightarrow> flt \<Rightarrow> flt" where
  "times_flt a b =
     (if is_nan a \<or> is_nan b then NaN
      else if \<not> (is_finite a \<and> is_finite b) then
        (if is_zero a \<or> is_zero b then NaN else inf_signed (signbit a \<noteq> signbit b))
      else if val a * val b = 0 then zero_signed (signbit a \<noteq> signbit b)
      else round32 (val a * val b))"

definition divide_flt :: "flt \<Rightarrow> flt \<Rightarrow> flt" where
  "divide_flt a b =
     (if is_nan a \<or> is_nan b then NaN
      else if \<not> is_finite a then
        (if \<not> is_finite b then NaN else inf_signed (signbit a \<noteq> signbit b))
      else if \<not> is_finite b then zero_signed (signbit a \<noteq> signbit b)
      else if is_zero b then
        (if is_zero a then NaN else inf_signed (signbit a \<noteq> signbit b))
      else if is_zero a then zero_signed (signbit a \<noteq> signbit b)
      else round32 (val a / val b))"

definition inverse_flt :: "flt \<Rightarrow> flt" where
  "inverse_flt a =
     (if is_nan a then NaN
      else if \<not> is_finite a then zero_signed (signbit a)
      else if is_zero a then inf_signed (signbit a)
      else round32 (1 / val a))"

definition less_eq_flt :: "flt \<Rightarrow> flt \<Rightarrow> bool" where
  "less_eq_flt a b =
     (if is_nan a \<or> is_nan b then False
      else if is_finite a \<and> is_finite b then val a \<le> val b
      else a = NInf \<or> b = PInf)"

definition less_flt :: "flt \<Rightarrow> flt \<Rightarrow> bool" where
  "less_flt a b =
     (if is_nan a \<or> is_nan b then False
      else if is_finite a \<and> is_finite b then val a < val b
      else (a = NInf \<and> b \<noteq> NInf) \<or> (b = PInf \<and> a \<noteq> PInf))"

instance ..

end

text \<open>The operator \<^verbatim>\<open>==\<close> on \<^verbatim>\<open>float\<close>.\<close>

definition feq :: "flt \<Rightarrow> flt \<Rightarrow> bool" where
  "feq a b =
     (if is_nan a \<or> is_nan b then False
      else if is_finite a \<and> is_finite b then val a = val b
      else a = b)"

text \<open>\<^verbatim>\<open>sqrtf\<close>, \<^verbatim>\<open>cosf\<close> and \<^verbatim>\<open>sinf\<close> of \<^verbatim>\<open><cmath>\<close>, taken as correctly rounded:
  the square root of a negative number is NaN.\<close>

fun sqrtf :: "flt \<Rightarrow> flt" where
  "sqrtf (Fin a) = (if a < 0 then NaN else round32 (sqrt a))"
| "sqrtf MZero = MZero"
| "sqrtf PInf = PInf"
| "sqrtf NInf = NaN"
| "sqrtf NaN = NaN"

fun cosf :: "flt \<Rightarrow> flt" where
  "cosf (Fin a) = round32 (cos a)"
| "cosf MZero = Fin 1"
| "cosf a = NaN"

fun sinf :: "flt \<Rightarrow> flt" where
  "sinf (Fin a) = round32 (sin a)"
| "sinf MZero = MZero"
| "sinf a = NaN"

text \<open>\<^verbatim>\<open>FLT_MAX\<close> and \<^verbatim>\<open>FLT_EPSILON\<close> of \<^verbatim>\<open><cfloat>\<close> for the IEEE single format.\<close>

definition FLT_MAX :: flt where
  "FLT_MAX = Fin ((2 - 1 / 2 ^ 23) * 2 ^ 127)"

definition FLT_EPSILON :: flt where
  "FLT_EPSILON = Fin (1 / 2 ^ 23)"

text \<open>The literals \<^verbatim>\<open>0.0001f\<close>, \<^verbatim>\<open>0.7f\<close> and \<^verbatim>\<open>0.04f\<close> as binary32 numbers.\<close>

definition lit_0_0001 :: flt where
  "lit_0_0001 = Fin (13743895 / 2 ^ 37)"

definition lit_0_7 :: flt where
  "lit_0_7 = Fin (11744051 / 2 ^ 24)"

definition lit_0_04 :: flt where
  "lit_0_04 = Fin (10737418 / 2 ^ 28)"

text \<open>Modelled from the spec: \<^verbatim>\<open>Square\<close> of MathHelpers.h, which is not among the sources.\<close>

definition Square :: "flt \<Rightarrow> flt" where
  "Square a = a * a"

section \<open>Vectors\<close>

text \<open>
  Modelled from the spec: Vector3.h, Vector4.h and ColorRGB.h are not among the sources.
  The spec names the operations (add, subtract, scale, dot, magnitude, normalize); they
  are written component by component, with the sums associated to the left.
\<close>

datatype Vector3 = Vector3 (vx: flt) (vy: flt) (vz: flt)

datatype Vector4 = Vector4 (x4: flt) (y4: flt) (z4: flt) (w4: flt)

instantiation Vector3 :: "{plus, minus, uminus}"
begin

definition plus_Vector3 :: "Vector3 \<Rightarrow> Vector3 \<Rightarrow> Vector3" where
  "plus_Vector3 a b = Vector3 (vx a + vx b) (vy a + vy b) (vz a + vz b)"

definition minus_Vector3 :: "Vector3 \<Rightarrow> Vector3 \<Rightarrow> Vector3" where
  "minus_Vector3 a b = Vector3 (vx a - vx b) (vy a - vy b) (vz a - vz b)"

definition uminus_Vector3 :: "Vector3 \<Rightarrow> Vector3" where
  "uminus_Vector3 a = Vector3 (- vx a) (- vy a) (- vz a)"

instance ..

end

definition scale3 :: "Vector3 \<Rightarrow> flt \<Rightarrow> Vector3" where
  "scale3 v s = Vector3 (vx v * s) (vy v * s) (vz v * s)"

definition scale4 :: "Vector4 \<Rightarrow> flt \<Rightarrow> Vector4" where
  "scale4 v s = Vector4 (x4 v * s) (y4 v * s) (z4 v * s) (w4 v * s)"

definition Dot :: "Vector3 \<Rightarrow> Vector3 \<Rightarrow> flt" where
  "Dot a b = vx a * vx b + vy a * vy b + vz a * vz b"

definition Magnitude :: "Vector3 \<Rightarrow> flt" where
  "Magnitude v = sqrtf (vx v * vx v + vy v * vy v + vz v * vz v)"

definition Normalized :: "Vector3 \<Rightarrow> Vector3" where
  "Normalized v = (let m = Magnitude v in Vector3 (vx v / m) (vy v / m) (vz v / m))"

definition Reflect :: "Vector3 \<Rightarrow> Vector3 \<Rightarrow> Vector3" where
  "Reflect v1 v2 = v1 - scale3 v2 (Fin 2 * Dot v1 v2)"

definition UnitX :: Vector3 where
  "UnitX = Vector3 1 0 0"

definition UnitY :: Vector3 where
  "UnitY = Vector3 0 1 0"

definition UnitZ :: Vector3 where
  "UnitZ = Vector3 0 0 1"

section \<open>Rays, hit records and primitives\<close>

text \<open>
  Modelled from the spec: DataTypes.h is not among the sources. The fields are the ones the
  hit tests and the renderer read and write; a value-initialised \<^verbatim>\<open>HitRecord{}\<close> has
  \<^verbatim>\<open>didHit\<close> false (its other fields are not read before they are written).
\<close>

record Ray =
  ray_origin :: Vector3
  ray_direction :: Vector3
  ray_min :: flt
  ray_max :: flt

record HitRecord =
  hit_origin :: Vector3
  hit_normal :: Vector3
  hit_t :: flt
  didHit :: bool
  hit_materialIndex :: nat

record Sphere =
  sphere_origin :: Vector3
  sphere_radius :: flt
  sphere_materialIndex :: nat

record Plane =
  plane_origin :: Vector3
  plane_normal :: Vector3
  plane_materialIndex :: nat

definition HitRecord_default :: HitRecord where
  "HitRecord_default =
     \<lparr>hit_origin = Vector3 0 0 0, hit_normal = Vector3 0 0 0, hit_t = FLT_MAX,
      didHit = False, hit_materialIndex = 0\<rparr>"

section \<open>Hit tests (Utils.h)\<close>

text \<open>
  The C++ functions return a \<^verbatim>\<open>bool\<close> and write through the reference
  \<^verbatim>\<open>hitRecord\<close>; the model returns the pair of the result and the record afterwards.
\<close>

definition HitTest_Sphere :: "Sphere \<Rightarrow> Ray \<Rightarrow> HitRecord \<Rightarrow> bool \<Rightarrow> bool \<times> HitRecord" where
  "HitTest_Sphere sphere ray hitRecord ignoreHitRecord =
     (let tc = sphere_origin sphere - ray_origin ray;
          dp = Dot tc (ray_direction ray);
          tcl = Magnitude tc;
          odSqr = Square tcl - Square dp;
          tca = sqrtf (Square (sphere_radius sphere) - odSqr);
          ti1 = dp - tca
      in if ray_min ray \<le> ti1 \<and> ti1 \<le> ray_max ray then
           if ignoreHitRecord then (True, hitRecord)
           else
             let pointI1 = ray_origin ray + scale3 (ray_direction ray) ti1
             in (True,
                 hitRecord\<lparr>didHit := True,
                            hit_materialIndex := sphere_materialIndex sphere,
                            hit_normal := Normalized (sphere_origin sphere - pointI1),
                            hit_origin := ray_origin ray,
                            hit_t := ti1\<rparr>)
         else (False, hitRecord))"

definition HitTest_Sphere_any :: "Sphere \<Rightarrow> Ray \<Rightarrow> bool" where
  "HitTest_Sphere_any sphere ray = fst (HitTest_Sphere sphere ray HitRecord_default True)"



definition HitTest_Plane :: "Plane \<Rightarrow> Ray \<Rightarrow> HitRecord \<Rightarrow> bool \<Rightarrow> bool \<times> HitRecord" where
  "HitTest_Plane plane ray hitRecord ignoreHitRecord =
     (let t = Dot (plane_origin plane - ray_origin ray) (plane_normal plane)
                / Dot (ray_direction ray) (plane_normal plane)
      in if ray_min ray \<le> t \<and> t \<le> ray_max ray then
           if ignoreHitRecord then (True, hitRecord)
           else
             (True,
              hitRecord\<lparr>didHit := True,
                         hit_materialIndex := plane_materialIndex plane,
                         hit_normal := plane_normal plane,
                         hit_origin := ray_origin ray,
                         hit_t := t\<rparr>)
         else (False, hitRecord))"

definition HitTest_Plane_any :: "Plane \<Rightarrow> Ray \<Rightarrow> bool" where
  "HitTest_Plane_any plane ray = fst (HitTest_Plane plane ray HitRecord_default True)"

section \<open>Lights (Utils.h)\<close>

text \<open>Modelled from the spec: \<^verbatim>\<open>Light\<close> and \<^verbatim>\<open>LightType\<close> of DataTypes.h and
  \<^verbatim>\<open>ColorRGB\<close> of ColorRGB.h, which are not among the sources.\<close>

datatype ColorRGB = ColorRGB (cr: flt) (cg: flt) (cb: flt)

instantiation ColorRGB :: "{plus, minus, times}"
begin

definition plus_ColorRGB :: "ColorRGB \<Rightarrow> ColorRGB \<Rightarrow> ColorRGB" where
  "plus_ColorRGB a b = ColorRGB (cr a + cr b) (cg a + cg b) (cb a + cb b)"

definition minus_ColorRGB :: "ColorRGB \<Rightarrow> ColorRGB \<Rightarrow> ColorRGB" where
  "minus_ColorRGB a b = ColorRGB (cr a - cr b) (cg a - cg b) (cb a - cb b)"

definition times_ColorRGB :: "ColorRGB \<Rightarrow> ColorRGB \<Rightarrow> ColorRGB" where
  "times_ColorRGB a b = ColorRGB (cr a * cr b) (cg a * cg b) (cb a * cb b)"

instance ..

end

definition cscale :: "ColorRGB \<Rightarrow> flt \<Rightarrow> ColorRGB" where
  "cscale c s = ColorRGB (cr c * s) (cg c * s) (cb c * s)"

definition White :: ColorRGB where
  "White = ColorRGB 1 1 1"

datatype LightType = Point | Directional

record Light =
  light_origin :: Vector3
  light_direction :: Vector3
  light_color :: ColorRGB
  light_intensity :: flt
  light_type :: LightType

definition GetDirectionToLight :: "Light \<Rightarrow> Vector3 \<Rightarrow> Vector3" where
  "GetDirectionToLight light origin =
     (case light_type light of
        Point \<Rightarrow> light_origin light - origin
      | Directional \<Rightarrow> scale3 (- light_direction light) FLT_MAX)"

text \<open>
  \<^verbatim>\<open>GetRadiance\<close> is \<^verbatim>\<open>assert(false && "No Implemented Yet!"); return {};\<close>.
  With assertions compiled in, the call aborts; with \<^verbatim>\<open>NDEBUG\<close> defined the assertion is
  removed and the value-initialised colour (black) is returned.
\<close>

datatype error = AssertionFailed | IndexOutOfRange

definition GetRadiance :: "bool \<Rightarrow> Light \<Rightarrow> Vector3 \<Rightarrow> error + ColorRGB" where
  "GetRadiance ndebug light target =
     (if ndebug then Inr (ColorRGB 0 0 0) else Inl AssertionFailed)"

section \<open>Matrices (Matrix.cpp)\<close>

text \<open>\<^verbatim>\<open>Vector4 data[4]\<close>: the four stored vectors, in order.\<close>

datatype Matrix = Matrix (data0: Vector4) (data1: Vector4) (data2: Vector4) (data3: Vector4)

definition Vector4_of :: "Vector3 \<Rightarrow> flt \<Rightarrow> Vector4" where
  "Vector4_of v w = Vector4 (vx v) (vy v) (vz v) w"

definition Matrix_of_axes :: "Vector3 \<Rightarrow> Vector3 \<Rightarrow> Vector3 \<Rightarrow> Vector3 \<Rightarrow> Matrix" where
  "Matrix_of_axes xAxis yAxis zAxis t =
     Matrix (Vector4_of xAxis 0) (Vector4_of yAxis 0) (Vector4_of zAxis 0) (Vector4_of t 1)"

definition TransformVector3 :: "Matrix \<Rightarrow> flt \<Rightarrow> flt \<Rightarrow> flt \<Rightarrow> Vector3" where
  "TransformVector3 m x y z =
     (let d0 = scale4 (data0 m) x;
          d1 = scale4 (data1 m) y;
          d2 = scale4 (data2 m) z
      in Vector3 (x4 d0 + x4 d1 + x4 d2) (y4 d0 + y4 d1 + y4 d2) (z4 d0 + z4 d1 + z4 d2))"

definition TransformVector :: "Matrix \<Rightarrow> Vector3 \<Rightarrow> Vector3" where
  "TransformVector m v = TransformVector3 m (vx v) (vy v) (vz v)"

definition TransformPoint3 :: "Matrix \<Rightarrow> flt \<Rightarrow> flt \<Rightarrow> flt \<Rightarrow> Vector3" where
  "TransformPoint3 m x y z =
     (let d0 = scale4 (data0 m) x;
          d1 = scale4 (data1 m) y;
          d2 = scale4 (data2 m) z
      in Vector3 (x4 d0 + x4 d1 + x4 d2 + x4 (data3 m))
                 (y4 d0 + y4 d1 + y4 d2 + y4 (data3 m))
                 (z4 d0 + z4 d1 + z4 d2 + z4 (data3 m)))"

definition TransformPoint :: "Matrix \<Rightarrow> Vector3 \<Rightarrow> Vector3" where
  "TransformPoint m p = TransformPoint3 m (vx p) (vy p) (vz p)"

definition CreateTranslation3 :: "flt \<Rightarrow> flt \<Rightarrow> flt \<Rightarrow> Matrix" where
  "CreateTranslation3 x y z =
     Matrix (Vector4 1 0 0 x)
            (Vector4 0 1 0 y)
            (Vector4 0 0 1 z)
            (Vector4 0 0 0 1)"

definition CreateTranslation :: "Vector3 \<Rightarrow> Matrix" where
  "CreateTranslation t = Matrix_of_axes UnitX UnitY UnitZ t"

definition CreateRotationX :: "flt \<Rightarrow> Matrix" where
  "CreateRotationX pitch =
     Matrix (Vector4 1 0 0 0)
            (Vector4 0 (cosf pitch) (- sinf pitch) 0)
            (Vector4 0 (sinf pitch) (cosf pitch) 0)
            (Vector4 0 0 0 1)"

definition CreateRotationY :: "flt \<Rightarrow> Matrix" where
  "CreateRotationY yaw =
     Matrix (Vector4 (cosf yaw) 0 (- sinf yaw) 0)
            (Vector4 0 1 0 0)
            (Vector4 (sinf yaw) 0 (cosf yaw) 0)
            (Vector4 0 0 0 1)"

definition CreateRotationZ :: "flt \<Rightarrow> Matrix" where
  "CreateRotationZ roll =
     Matrix (Vector4 (cosf roll) (sinf roll) 0 0)
            (Vector4 (- sinf roll) (cosf roll) 0 0)
            (Vector4 0 0 0 0)
            (Vector4 0 0 0 1)"

section \<open>Materials (Material.h)\<close>

text \<open>
  BRDFs.h is not among the sources, so the functions of \<^verbatim>\<open>namespace BRDF\<close> that the
  materials call are parameters of the model: \<^verbatim>\<open>Lambert\<close> (with a scalar and with a colour
  reflectance), \<^verbatim>\<open>Phong\<close>, \<^verbatim>\<open>FresnelFunction_Schlick\<close>, \<^verbatim>\<open>NormalDistribution_GGX\<close>
  and \<^verbatim>\<open>GeometryFunction_Smith\<close>.
\<close>

record BRDFs =
  Lambert :: "flt \<Rightarrow> ColorRGB \<Rightarrow> ColorRGB"
  Lambert_rgb :: "ColorRGB \<Rightarrow> ColorRGB \<Rightarrow> ColorRGB"
  Phong :: "flt \<Rightarrow> flt \<Rightarrow> Vector3 \<Rightarrow> Vector3 \<Rightarrow> Vector3 \<Rightarrow> ColorRGB"
  FresnelFunction_Schlick :: "Vector3 \<Rightarrow> Vector3 \<Rightarrow> ColorRGB \<Rightarrow> ColorRGB"
  NormalDistribution_GGX :: "Vector3 \<Rightarrow> Vector3 \<Rightarrow> flt \<Rightarrow> flt"
  GeometryFunction_Smith :: "Vector3 \<Rightarrow> Vector3 \<Rightarrow> Vector3 \<Rightarrow> flt \<Rightarrow> flt"

text \<open>The four material classes, each with its member variables in declaration order.\<close>

datatype Material =
    Material_SolidColor ColorRGB
  | Material_Lambert ColorRGB flt
  | Material_LambertPhong ColorRGB flt flt flt
  | Material_CookTorrence ColorRGB flt flt

definition Shade_CookTorrence ::
  "BRDFs \<Rightarrow> ColorRGB \<Rightarrow> flt \<Rightarrow> flt \<Rightarrow> HitRecord \<Rightarrow> Vector3 \<Rightarrow> Vector3 \<Rightarrow> ColorRGB" where
  "Shade_CookTorrence brdf m_Albedo m_Metalness m_Roughness hitRecord l v =
     (let baseReflectivity =
            (if feq m_Metalness (Fin 0) then ColorRGB lit_0_04 lit_0_04 lit_0_04
             else m_Albedo);
          halfVector = Normalized (v + l);
          fresnel = FresnelFunction_Schlick brdf halfVector v baseReflectivity;
          normalDistribution = NormalDistribution_GGX brdf (hit_normal hitRecord) halfVector m_Roughness;
          GeoSmith = GeometryFunction_Smith brdf (- hit_normal hitRecord) v l m_Roughness;
          specularColor =
            cscale (cscale (cscale fresnel normalDistribution) GeoSmith)
              (Fin 1 / (Fin 4 * Dot v (hit_normal hitRecord) * Dot l (hit_normal hitRecord)));
          kd = (if Fin 0 < m_Metalness then ColorRGB 0 0 0 else ColorRGB 1 1 1 - fresnel);
          diffuseColor = Lambert_rgb brdf kd m_Albedo
      in specularColor + diffuseColor)"

fun Shade :: "BRDFs \<Rightarrow> Material \<Rightarrow> HitRecord \<Rightarrow> Vector3 \<Rightarrow> Vector3 \<Rightarrow> ColorRGB" where
  "Shade brdf (Material_SolidColor m_Color) hitRecord l v = m_Color"
| "Shade brdf (Material_Lambert m_DiffuseColor m_DiffuseReflectance) hitRecord l v =
     Lambert brdf m_DiffuseReflectance m_DiffuseColor"
| "Shade brdf (Material_LambertPhong m_DiffuseColor m_DiffuseReflectance m_SpecularReflectance m_PhongExponent)
       hitRecord l v =
     Lambert brdf m_DiffuseReflectance m_DiffuseColor
       + Phong brdf m_SpecularReflectance m_PhongExponent l (- v) (hit_normal hitRecord)"
| "Shade brdf (Material_CookTorrence m_Albedo m_Metalness m_Roughness) hitRecord l v =
     Shade_CookTorrence brdf m_Albedo m_Metalness m_Roughness hitRecord l v"

fun GetReflectivity :: "Material \<Rightarrow> flt" where
  "GetReflectivity (Material_CookTorrence m_Albedo m_Metalness m_Roughness) =
     (Fin 1 - m_Roughness) * m_Metalness"
| "GetReflectivity m = Fin 0"

section \<open>The per-pixel integrator (Renderer.cpp)\<close>

text \<open>
  Renderer.h and Scene.h are not among the sources. The renderer's settings are the member
  variables \<^verbatim>\<open>RenderPixel\<close> reads; the scene is the two queries it calls:
  \<^verbatim>\<open>GetClosestHit\<close>, which writes through a reference to a hit record (here: returns the
  record afterwards), and \<^verbatim>\<open>DoesHit\<close>. \<^verbatim>\<open>materials[i]\<close> on a \<^verbatim>\<open>std::vector\<close> is
  undefined out of range; the model returns \<open>IndexOutOfRange\<close> there.
\<close>

datatype LightingMode = ObservedArea | Radiance | BRDF | Combined

record Renderer =
  m_Bounces :: int
  m_ShadowsEnabled :: bool
  m_ReflectionsEnabled :: bool
  m_CurrentLightingMode :: LightingMode

record Scene =
  GetClosestHit :: "Ray \<Rightarrow> HitRecord \<Rightarrow> HitRecord"
  DoesHit :: "Ray \<Rightarrow> bool"

definition material_at :: "Material list \<Rightarrow> nat \<Rightarrow> error + Material" where
  "material_at materials i = (if i < length materials then Inr (materials ! i) else Inl IndexOutOfRange)"

text \<open>The normalised direction to the light and the observed area, lines 148 to 153:
  \<^verbatim>\<open>Normalize()\<close> scales the vector in place and returns its former magnitude.\<close>

definition directionToLight :: "Light \<Rightarrow> HitRecord \<Rightarrow> Vector3" where
  "directionToLight light closestHit = Normalized (GetDirectionToLight light (hit_origin closestHit))"

definition lightDistance :: "Light \<Rightarrow> HitRecord \<Rightarrow> flt" where
  "lightDistance light closestHit = Magnitude (GetDirectionToLight light (hit_origin closestHit))"

definition observedArea :: "Light \<Rightarrow> HitRecord \<Rightarrow> flt" where
  "observedArea light closestHit = Dot (hit_normal closestHit) (directionToLight light closestHit)"

text \<open>The body of the loop over the lights, lines 146 to 191: it returns the accumulated
  colour after this light, unchanged where the source says \<^verbatim>\<open>continue\<close>.\<close>

definition light_step ::
  "bool \<Rightarrow> BRDFs \<Rightarrow> Renderer \<Rightarrow> Scene \<Rightarrow> Material list \<Rightarrow> Vector3 \<Rightarrow> int \<Rightarrow> flt \<Rightarrow> flt
     \<Rightarrow> HitRecord \<Rightarrow> ColorRGB \<Rightarrow> Light \<Rightarrow> error + ColorRGB" where
  "light_step ndebug brdf rd pScene materials rayDirection bounce reflectivity multiplier
       closestHit finalColor light =
     (let lightRay = \<lparr>ray_origin = hit_origin closestHit + scale3 (hit_normal closestHit) (lit_0_0001),
                      ray_direction = directionToLight light closestHit,
                      ray_min = Fin 0,
                      ray_max = lightDistance light closestHit\<rparr>
      in if m_ShadowsEnabled rd \<and> DoesHit pScene lightRay then Inr finalColor
         else
           case GetRadiance ndebug light (hit_origin closestHit) of
             Inl e \<Rightarrow> Inl e
           | Inr radianceColor \<Rightarrow>
               (case material_at materials (hit_materialIndex closestHit) of
                  Inl e \<Rightarrow> Inl e
                | Inr material \<Rightarrow>
                    let BRDF_color = Shade brdf material closestHit (- directionToLight light closestHit) rayDirection
                    in (case m_CurrentLightingMode rd of
                          ObservedArea \<Rightarrow>
                            if observedArea light closestHit < Fin 0 then Inr finalColor
                            else Inr (finalColor
                                       + ColorRGB (observedArea light closestHit)
                                                  (observedArea light closestHit)
                                                  (observedArea light closestHit))
                        | Radiance \<Rightarrow> Inr (finalColor + radianceColor)
                        | BRDF \<Rightarrow> Inr (finalColor + BRDF_color)
                        | Combined \<Rightarrow>
                            if observedArea light closestHit < Fin 0 then Inr finalColor
                            else if 0 < bounce then
                              Inr (finalColor
                                    + cscale (cscale (cscale (radianceColor * BRDF_color)
                                                (observedArea light closestHit)) reflectivity) multiplier)
                            else
                              Inr (finalColor
                                    + cscale (radianceColor * BRDF_color) (observedArea light closestHit)))))"

fun lights_loop ::
  "bool \<Rightarrow> BRDFs \<Rightarrow> Renderer \<Rightarrow> Scene \<Rightarrow> Material list \<Rightarrow> Vector3 \<Rightarrow> int \<Rightarrow> flt \<Rightarrow> flt
     \<Rightarrow> HitRecord \<Rightarrow> ColorRGB \<Rightarrow> Light list \<Rightarrow> error + ColorRGB" where
  "lights_loop ndebug brdf rd pScene materials rayDirection bounce reflectivity multiplier
       closestHit finalColor [] = Inr finalColor"
| "lights_loop ndebug brdf rd pScene materials rayDirection bounce reflectivity multiplier
       closestHit finalColor (light # lights) =
     (case light_step ndebug brdf rd pScene materials rayDirection bounce reflectivity multiplier
             closestHit finalColor light of
        Inl e \<Rightarrow> Inl e
      | Inr c \<Rightarrow>
          lights_loop ndebug brdf rd pScene materials rayDirection bounce reflectivity multiplier
            closestHit c lights)"

text \<open>The variables the bounce loop updates: \<^verbatim>\<open>viewRay\<close>, \<^verbatim>\<open>finalColor\<close>,
  \<^verbatim>\<open>reflectivity\<close> and \<^verbatim>\<open>multiplier\<close>.\<close>

record PixelState =
  s_viewRay :: Ray
  s_finalColor :: ColorRGB
  s_reflectivity :: flt
  s_multiplier :: flt

text \<open>The bounce loop, lines 137 to 210: the result is \<^verbatim>\<open>finalColor\<close> when the loop is
  left, before \<^verbatim>\<open>MaxToOne\<close> and the write to the buffer.\<close>

function bounce_loop ::
  "bool \<Rightarrow> BRDFs \<Rightarrow> Renderer \<Rightarrow> Scene \<Rightarrow> Light list \<Rightarrow> Material list \<Rightarrow> Vector3 \<Rightarrow> int
     \<Rightarrow> PixelState \<Rightarrow> error + ColorRGB" where
  "bounce_loop ndebug brdf rd pScene lights materials rayDirection bounce st =
     (if bounce < m_Bounces rd then
        let closestHit = GetClosestHit pScene (s_viewRay st) HitRecord_default
        in if didHit closestHit then
             (case lights_loop ndebug brdf rd pScene materials rayDirection bounce
                     (s_reflectivity st) (s_multiplier st) closestHit (s_finalColor st) lights of
                Inl e \<Rightarrow> Inl e
              | Inr c \<Rightarrow>
                  (case material_at materials (hit_materialIndex closestHit) of
                     Inl e \<Rightarrow> Inl e
                   | Inr material \<Rightarrow>
                       if GetReflectivity material < FLT_EPSILON \<or> \<not> m_ReflectionsEnabled rd
                       then Inr c
                       else
                         bounce_loop ndebug brdf rd pScene lights materials rayDirection (bounce + 1)
                           \<lparr>s_viewRay = (s_viewRay st)
                               \<lparr>ray_origin := hit_origin closestHit
                                    + scale3 (hit_normal closestHit) (lit_0_0001),
                                ray_direction := Reflect (ray_direction (s_viewRay st)) (hit_normal closestHit)\<rparr>,
                            s_finalColor = c,
                            s_reflectivity = GetReflectivity material,
                            s_multiplier = s_multiplier st * lit_0_7\<rparr>))
           else
             bounce_loop ndebug brdf rd pScene lights materials rayDirection (bounce + 1)
               (st\<lparr>s_finalColor := s_finalColor st + White\<rparr>)
      else Inr (s_finalColor st))"
  by pat_completeness auto
termination
  by (relation "measure (\<lambda>(ndebug, brdf, rd, pScene, lights, materials, rayDirection, bounce, st).
                   nat (m_Bounces rd - bounce))") auto

definition RenderPixel_color ::
  "bool \<Rightarrow> BRDFs \<Rightarrow> Renderer \<Rightarrow> Scene \<Rightarrow> Light list \<Rightarrow> Material list \<Rightarrow> Ray \<Rightarrow> error + ColorRGB" where
  "RenderPixel_color ndebug brdf rd pScene lights materials ray =
     bounce_loop ndebug brdf rd pScene lights materials (ray_direction ray) 0
       \<lparr>s_viewRay = ray, s_finalColor = ColorRGB 0 0 0, s_reflectivity = 0, s_multiplier = 1\<rparr>"

text \<open>A scene without primitives: the closest-hit query leaves the record as it is and
  nothing occludes.\<close>

definition empty_scene :: Scene where
  "empty_scene = \<lparr>GetClosestHit = (\<lambda>ray hitRecord. hitRecord), DoesHit = (\<lambda>ray. False)\<rparr>"

section \<open>Concrete inputs\<close>

text \<open>A stand-in for the functions of BRDFs.h with constant values, for the places where a
  concrete instance of the parameters is evaluated.\<close>

definition const_BRDFs :: BRDFs where
  "const_BRDFs =
     \<lparr>Lambert = (\<lambda>kd cd. White),
      Lambert_rgb = (\<lambda>kd cd. White),
      Phong = (\<lambda>ks e l v n. White),
      FresnelFunction_Schlick = (\<lambda>h v f0. White),
      NormalDistribution_GGX = (\<lambda>n h r. Fin 1),
      GeometryFunction_Smith = (\<lambda>n v l r. Fin 1)\<rparr>"

definition renderer_with_bounces :: "int \<Rightarrow> Renderer" where
  "renderer_with_bounces n =
     \<lparr>m_Bounces = n, m_ShadowsEnabled = True, m_ReflectionsEnabled = True,
      m_CurrentLightingMode = Combined\<rparr>"

definition renderer_in_mode :: "LightingMode \<Rightarrow> Renderer" where
  "renderer_in_mode mode =
     \<lparr>m_Bounces = 1, m_ShadowsEnabled = False, m_ReflectionsEnabled = False,
      m_CurrentLightingMode = mode\<rparr>"

definition ray_along_z :: Ray where
  "ray_along_z =
     \<lparr>ray_origin = Vector3 (Fin 0) (Fin 0) (Fin 0), ray_direction = Vector3 (Fin 0) (Fin 0) (Fin 1),
      ray_min = lit_0_0001, ray_max = FLT_MAX\<rparr>"

definition sphere_ahead :: Sphere where
  "sphere_ahead =
     \<lparr>sphere_origin = Vector3 (Fin 0) (Fin 0) (Fin 5), sphere_radius = Fin 1, sphere_materialIndex = 0\<rparr>"


definition plane_above :: Plane where
  "plane_above =
     \<lparr>plane_origin = Vector3 (Fin 0) (Fin 1) (Fin 0), plane_normal = Vector3 (Fin 0) (Fin 1) (Fin 0),
      plane_materialIndex = 0\<rparr>"

definition ray_along_x :: "flt \<Rightarrow> Ray" where
  "ray_along_x tmax =
     \<lparr>ray_origin = Vector3 (Fin 0) (Fin 0) (Fin 0), ray_direction = Vector3 (Fin 1) (Fin 0) (Fin 0),
      ray_min = lit_0_0001, ray_max = tmax\<rparr>"

definition point_light_at :: "Vector3 \<Rightarrow> flt \<Rightarrow> Light" where
  "point_light_at p i =
     \<lparr>light_origin = p, light_direction = Vector3 (Fin 0) (Fin 0) (Fin 0),
      light_color = ColorRGB (Fin 1) (Fin 1) (Fin 1), light_intensity = i, light_type = Point\<rparr>"

definition hit_facing_z :: HitRecord where
  "hit_facing_z =
     \<lparr>hit_origin = Vector3 (Fin 0) (Fin 0) (Fin 0), hit_normal = Vector3 (Fin 0) (Fin 0) (Fin 1),
      hit_t = Fin 1, didHit = True, hit_materialIndex = 0\<rparr>"

text \<open>The default Cook-Torrance material of Material.h: albedo (0.955f, 0.637f, 0.538f),
  metalness 1, roughness 0.1f.\<close>

definition copper :: Material where
  "copper =
     Material_CookTorrence
       (ColorRGB (Fin (16022241 / 2 ^ 24)) (Fin (10687087 / 2 ^ 24)) (Fin (9026142 / 2 ^ 24)))
       (Fin 1) (Fin (13421773 / 2 ^ 27))"



section \<open>Rounding\<close>

lemma round_even_of_int [simp]: "round_even (of_int i) = i"
  by (simp add: round_even_def)

lemma ulp32_pos: "0 < ulp32 x"
  by (simp add: ulp32_def)

lemma round32_zero [simp]: "round32 0 = Fin 0"
  by (simp add: round32_def zero_signed_def round_even_def)

lemma round32_exactI:
  assumes "x = of_int i * ulp32 x" "x \<noteq> 0" "\<bar>x\<bar> < 2 ^ 128"
  shows "round32 x = Fin x"
proof -
  have "x / ulp32 x = of_int i"
    using assms(1) ulp32_pos [of x] by (metis nonzero_eq_divide_eq order_less_irrefl)
  then have "of_int (round_even (x / ulp32 x)) * ulp32 x = x"
    using assms(1) by simp
  then show ?thesis using assms(2,3) by (simp add: round32_def Let_def)
qed

lemma floor_log2_bounds:
  assumes "0 < x"
  shows "2 powr of_int \<lfloor>log 2 x\<rfloor> \<le> x" "x < 2 powr (of_int \<lfloor>log 2 x\<rfloor> + 1)"
proof -
  have a: "of_int \<lfloor>log 2 x\<rfloor> \<le> log 2 x" by simp
  show "2 powr of_int \<lfloor>log 2 x\<rfloor> \<le> x"
    using a assms le_log_iff [of 2 x "of_int \<lfloor>log 2 x\<rfloor>"] by linarith
  have b: "log 2 x < of_int \<lfloor>log 2 x\<rfloor> + 1" by linarith
  show "x < 2 powr (of_int \<lfloor>log 2 x\<rfloor> + 1)"
    using b assms log_less_iff [of 2 x "of_int \<lfloor>log 2 x\<rfloor> + 1"] by linarith
qed

lemma dyadic_scale:
  fixes m :: int and n k :: nat
  assumes "n \<le> k"
  shows "(of_int m :: real) / 2 ^ n = of_int (m * 2 ^ (k - n)) * (1 / 2 ^ k)"
proof -
  have "(2::real) ^ k = 2 ^ (k - n) * 2 ^ n"
    using assms by (simp flip: power_add)
  then show ?thesis by simp
qed

lemma round32_dyadic:
  fixes m :: int and n :: nat
  assumes m: "m \<noteq> 0" "\<bar>m\<bar> < 2 ^ 24" and n: "n \<le> 149"
  shows "round32 (of_int m / 2 ^ n) = Fin (of_int m / 2 ^ n)"
proof -
  define x :: real where "x = of_int m / 2 ^ n"
  have x0: "x \<noteq> 0" using m(1) by (simp add: x_def)
  have ax: "\<bar>x\<bar> = of_int \<bar>m\<bar> / 2 ^ n" by (simp add: x_def abs_divide)
  have m1: "(1::real) \<le> of_int \<bar>m\<bar>" using m(1) by (simp add: int_one_le_iff_zero_less)
  have m2: "of_int \<bar>m\<bar> < (2::real) ^ 24"
    using m(2) by (metis of_int_less_iff of_int_numeral of_int_power)
  have p1: "(1::real) \<le> 2 ^ n" by simp
  have lt24: "\<bar>x\<bar> < 2 ^ 24"
  proof -
    have "of_int \<bar>m\<bar> / (2::real) ^ n \<le> of_int \<bar>m\<bar> / 1"
      using m1 p1 by (intro divide_left_mono) simp_all
    then show ?thesis using m2 unfolding ax by simp
  qed
  have big: "\<bar>x\<bar> < 2 ^ 128"
  proof -
    have "(2::real) ^ 24 \<le> 2 ^ 128" by simp
    then show ?thesis using lt24 by linarith
  qed
  have "\<exists>i. x = of_int i * ulp32 x"
  proof (cases "\<bar>x\<bar> < 1 / 2 ^ 126")
    case True
    then have u: "ulp32 x = 1 / 2 ^ 149" by (simp add: ulp32_def)
    have "x = of_int (m * 2 ^ (149 - n)) * (1 / 2 ^ 149)"
      unfolding x_def using n by (rule dyadic_scale)
    then show ?thesis unfolding u by blast
  next
    case False
    define e where "e = \<lfloor>log 2 \<bar>x\<bar>\<rfloor>"
    from False have u: "ulp32 x = 2 powr (of_int e - 23)" by (simp add: ulp32_def e_def)
    have pos: "0 < \<bar>x\<bar>" using x0 by simp
    have lo: "2 powr of_int e \<le> \<bar>x\<bar>" unfolding e_def by (rule floor_log2_bounds(1) [OF pos])
    have "\<bar>x\<bar> < 2 ^ 24 / 2 ^ n" unfolding ax using m2 by (simp add: divide_strict_right_mono)
    also have "\<dots> = 2 powr (24 - of_nat n)"
      by (simp add: powr_diff powr_realpow)
    finally have "2 powr of_int e < 2 powr (24 - real n)" using lo by linarith
    then have "of_int e < 24 - real n" by simp
    then have el: "e + int n \<le> 23" by linarith
    define k where "k = nat (23 - e - int n)"
    have k: "real k = 23 - of_int e - real n" using el by (simp add: k_def)
    have "2 powr (of_int e - 23) * 2 ^ k = 2 powr (of_int e - 23) * 2 powr (real k)"
      by (simp add: powr_realpow)
    also have "\<dots> = 2 powr (- real n)"
      unfolding k by (simp flip: powr_add)
    also have "\<dots> = 1 / 2 ^ n" by (simp add: powr_minus powr_realpow divide_simps)
    finally have pk: "2 powr (of_int e - 23) * 2 ^ k = (1::real) / 2 ^ n" .
    have "real_of_int (m * 2 ^ k) * 2 powr (of_int e - 23)
            = real_of_int m * (2 powr (of_int e - 23) * 2 ^ k)"
      by simp
    also have "\<dots> = x" unfolding pk by (simp add: x_def)
    finally have "x = of_int (m * 2 ^ k) * 2 powr (of_int e - 23)" by simp
    then show ?thesis unfolding u by blast
  qed
  then obtain i where "x = of_int i * ulp32 x" ..
  then have "round32 x = Fin x" using x0 big by (rule round32_exactI)
  then show ?thesis by (simp add: x_def)
qed

lemma round32_of_int:
  fixes m :: int
  assumes "m \<noteq> 0" "\<bar>m\<bar> < 2 ^ 24"
  shows "round32 (of_int m) = Fin (of_int m)"
  using round32_dyadic [OF assms, of 0] by simp




text \<open>Small integers and the powers of two used below are binary32 numbers.\<close>

lemma round32_numeral [simp]:
  "numeral k < (2 ^ 24 :: int) \<Longrightarrow> round32 (numeral k) = Fin (numeral k)"
  using round32_of_int [of "numeral k"] by simp

lemma round32_neg_numeral [simp]:
  "numeral k < (2 ^ 24 :: int) \<Longrightarrow> round32 (- numeral k) = Fin (- numeral k)"
  using round32_of_int [of "- numeral k"] by simp

lemma round32_one [simp]: "round32 1 = Fin 1"
  using round32_of_int [of 1] by simp

lemma round32_minus_one [simp]: "round32 (- 1) = Fin (- 1)"
  using round32_of_int [of "- 1"] by simp




lemma sqrt_25 [simp]: "sqrt 25 = 5"
  using real_sqrt_abs [of 5] by simp

section \<open>Arithmetic of the scalars\<close>

lemmas flt_ops =
  zero_flt_def one_flt_def plus_flt_def minus_flt_def times_flt_def divide_flt_def
  less_eq_flt_def less_flt_def zero_signed_def inf_signed_def

lemma times_nonfinite: "\<not> is_finite b \<Longrightarrow> \<not> is_finite (a * b)"
  by (cases a; cases b) (simp_all add: flt_ops)

lemma plus_nonfinite: "\<not> is_finite a \<Longrightarrow> \<not> is_finite (a + b)"
  by (cases a; cases b) (simp_all add: flt_ops)

lemma times_zero_left: "is_zero a \<Longrightarrow> is_nan (a * b) \<or> is_zero (a * b)"
  by (cases a; cases b) (simp_all add: flt_ops)

lemma times_zero_right: "is_zero b \<Longrightarrow> is_nan (a * b) \<or> is_zero (a * b)"
  by (cases a; cases b) (simp_all add: flt_ops)

lemma divide_by_zero: "is_zero z \<Longrightarrow> a / z = NaN \<or> a / z = PInf \<or> a / z = NInf"
  by (cases a; cases z) (simp_all add: flt_ops)

lemma divide_by_nan: "is_nan z \<Longrightarrow> a / z = NaN"
  by (cases z) (simp_all add: flt_ops)

section \<open>A ray that misses the scene\<close>

lemma bounce_loop_miss:
  assumes miss: "\<And>ray. \<not> didHit (GetClosestHit pScene ray HitRecord_default)"
  shows "bounce_loop ndebug brdf rd pScene lights materials dir bounce st
           = Inr (((\<lambda>c. c + White) ^^ nat (m_Bounces rd - bounce)) (s_finalColor st))"
proof (induction "nat (m_Bounces rd - bounce)" arbitrary: bounce st)
  case 0
  then have "\<not> bounce < m_Bounces rd" by simp
  then show ?case using 0 by (subst bounce_loop.simps) simp
next
  case (Suc n)
  then have lt: "bounce < m_Bounces rd" by linarith
  from Suc have n: "n = nat (m_Bounces rd - (bounce + 1))" by linarith
  have s: "nat (m_Bounces rd - bounce) = Suc (nat (m_Bounces rd - (bounce + 1)))"
    using lt by linarith
  show ?case
    apply (subst bounce_loop.simps)
    apply (simp add: lt miss Let_def Suc.hyps(1) [OF n] del: bounce_loop.simps)
    apply (simp only: s funpow_Suc_right o_apply)
    done
qed

text \<open>
  C1. The claim: for a pixel whose ray misses every primitive, the sky colour is added to
  the accumulated colour exactly once and the bounce loop ends, whatever the maximum bounce
  count. The code has no \<^verbatim>\<open>break\<close> in the miss branch: in a scene without primitives the
  loop runs all \<^verbatim>\<open>m_Bounces\<close> iterations and adds the sky colour (white) in each, so
  the accumulated colour is (1, 1, 1) with one bounce and (3, 3, 3) with three.
\<close>

theorem RenderPixel_miss_adds_sky_per_bounce:
  "RenderPixel_color ndebug brdf (renderer_with_bounces 1) empty_scene lights materials ray_along_z
      = Inr (ColorRGB (Fin 1) (Fin 1) (Fin 1))
   \<and> RenderPixel_color ndebug brdf (renderer_with_bounces 3) empty_scene lights materials ray_along_z
      = Inr (ColorRGB (Fin 3) (Fin 3) (Fin 3))"
proof -
  have m: "\<And>ray. \<not> didHit (GetClosestHit empty_scene ray HitRecord_default)"
    by (simp add: empty_scene_def HitRecord_default_def)
  show ?thesis
    unfolding RenderPixel_color_def bounce_loop_miss [OF m]
    by (simp add: renderer_with_bounces_def White_def plus_ColorRGB_def flt_ops numeral_3_eq_3)
qed

section \<open>The normal recorded by the sphere hit test\<close>

text \<open>The hit test in terms of the values of its local variables.\<close>

lemma HitTest_Sphere_eval:
  assumes "sphere_origin sphere - ray_origin ray = tc"
    and "Dot tc (ray_direction ray) = dp"
    and "Magnitude tc = tcl"
    and "sqrtf (Square (sphere_radius sphere) - (Square tcl - Square dp)) = tca"
    and "dp - tca = ti1"
  shows "HitTest_Sphere sphere ray hitRecord ignoreHitRecord =
     (if ray_min ray \<le> ti1 \<and> ti1 \<le> ray_max ray then
        if ignoreHitRecord then (True, hitRecord)
        else (True,
              hitRecord\<lparr>didHit := True,
                         hit_materialIndex := sphere_materialIndex sphere,
                         hit_normal := Normalized (sphere_origin sphere
                                          - (ray_origin ray + scale3 (ray_direction ray) ti1)),
                         hit_origin := ray_origin ray,
                         hit_t := ti1\<rparr>)
      else (False, hitRecord))"
  using assms by (simp add: HitTest_Sphere_def Let_def)

text \<open>
  C2. The claim: when \<^verbatim>\<open>HitTest_Sphere\<close> reports a hit, the recorded normal is
  normalize(hitPoint - sphereCenter). The code records
  \<^verbatim>\<open>(sphere.origin - pointI1).Normalized()\<close>, the opposite vector: for the sphere of radius 1
  centred at (0, 0, 5) and the ray from the origin along +z the hit is at t = 4, the
  recorded normal is (0, 0, 1), and normalize(hitPoint - sphereCenter) is (0, 0, -1).
\<close>

theorem HitTest_Sphere_normal_points_inward:
  "HitTest_Sphere sphere_ahead ray_along_z HitRecord_default False =
     (True, HitRecord_default\<lparr>didHit := True, hit_materialIndex := 0,
              hit_normal := Vector3 (Fin 0) (Fin 0) (Fin 1),
              hit_origin := Vector3 (Fin 0) (Fin 0) (Fin 0), hit_t := Fin 4\<rparr>)
   \<and> Normalized ((ray_origin ray_along_z + scale3 (ray_direction ray_along_z) (Fin 4))
                  - sphere_origin sphere_ahead)
       = Vector3 (Fin 0) (Fin 0) (Fin (- 1))"
proof -
  have tc: "sphere_origin sphere_ahead - ray_origin ray_along_z = Vector3 (Fin 0) (Fin 0) (Fin 5)"
    by (simp add: sphere_ahead_def ray_along_z_def minus_Vector3_def flt_ops)
  have dp: "Dot (Vector3 (Fin 0) (Fin 0) (Fin 5)) (ray_direction ray_along_z) = Fin 5"
    by (simp add: ray_along_z_def Dot_def flt_ops)
  have tcl: "Magnitude (Vector3 (Fin 0) (Fin 0) (Fin 5)) = Fin 5"
    by (simp add: Magnitude_def flt_ops)
  have tca: "sqrtf (Square (sphere_radius sphere_ahead) - (Square (Fin 5) - Square (Fin 5))) = Fin 1"
    by (simp add: sphere_ahead_def Square_def flt_ops)
  have ti1: "Fin 5 - Fin 1 = Fin 4"
    by (simp add: flt_ops)
  have p: "ray_origin ray_along_z + scale3 (ray_direction ray_along_z) (Fin 4)
             = Vector3 (Fin 0) (Fin 0) (Fin 4)"
    by (simp add: ray_along_z_def scale3_def plus_Vector3_def flt_ops)
  have n: "Normalized (sphere_origin sphere_ahead - Vector3 (Fin 0) (Fin 0) (Fin 4))
             = Vector3 (Fin 0) (Fin 0) (Fin 1)"
    by (simp add: sphere_ahead_def Normalized_def Magnitude_def minus_Vector3_def flt_ops)
  have i: "ray_min ray_along_z \<le> Fin 4 \<and> Fin 4 \<le> ray_max ray_along_z"
    by (simp add: ray_along_z_def lit_0_0001_def FLT_MAX_def flt_ops)
  have a: "HitTest_Sphere sphere_ahead ray_along_z HitRecord_default False =
     (True, HitRecord_default\<lparr>didHit := True, hit_materialIndex := 0,
              hit_normal := Vector3 (Fin 0) (Fin 0) (Fin 1),
              hit_origin := Vector3 (Fin 0) (Fin 0) (Fin 0), hit_t := Fin 4\<rparr>)"
    unfolding HitTest_Sphere_eval [OF tc dp tcl tca ti1] p n
    using i by (simp add: sphere_ahead_def ray_along_z_def)
  have b: "Normalized ((ray_origin ray_along_z + scale3 (ray_direction ray_along_z) (Fin 4))
                  - sphere_origin sphere_ahead)
       = Vector3 (Fin 0) (Fin 0) (Fin (- 1))"
    unfolding p
    by (simp add: sphere_ahead_def Normalized_def Magnitude_def minus_Vector3_def flt_ops)
  from a b show ?thesis by simp
qed

section \<open>Negative observed area\<close>

lemma observedArea_light_behind:
  "observedArea (point_light_at (Vector3 (Fin 0) (Fin 0) (Fin (- 1))) (Fin 1)) hit_facing_z = Fin (- 1)"
  by (simp add: observedArea_def directionToLight_def GetDirectionToLight_def point_light_at_def
        hit_facing_z_def Normalized_def Magnitude_def Dot_def minus_Vector3_def flt_ops)

text \<open>
  C3. In a build without assertions (with them \<^verbatim>\<open>GetRadiance\<close> aborts), for every light
  and every hit whose material index is valid: when the observed area
  dot(normal, directionToLight) is negative, the light leaves the accumulated colour as it
  is in the modes ObservedArea and Combined. (The modes Radiance and BRDF add their term
  whatever the sign of the observed area.)
\<close>

theorem negative_observedArea_discarded:
  assumes "observedArea light closestHit < Fin 0"
    and "m_CurrentLightingMode rd = ObservedArea \<or> m_CurrentLightingMode rd = Combined"
    and "ndebug"
    and "hit_materialIndex closestHit < length materials"
  shows "light_step ndebug brdf rd pScene materials rayDirection bounce reflectivity multiplier
           closestHit finalColor light = Inr finalColor"
  using assms by (auto simp add: light_step_def GetRadiance_def material_at_def Let_def)

theorem negative_observedArea_discarded_witness:
  "observedArea (point_light_at (Vector3 (Fin 0) (Fin 0) (Fin (- 1))) (Fin 1)) hit_facing_z < Fin 0
   \<and> m_CurrentLightingMode (renderer_in_mode Combined) = Combined
   \<and> hit_materialIndex hit_facing_z < length [Material_SolidColor White]
   \<and> light_step True const_BRDFs (renderer_in_mode Combined) empty_scene [Material_SolidColor White]
        (Vector3 (Fin 0) (Fin 0) (Fin 1)) 0 (Fin 0) (Fin 1) hit_facing_z
        (ColorRGB (Fin 0) (Fin 0) (Fin 0))
        (point_light_at (Vector3 (Fin 0) (Fin 0) (Fin (- 1))) (Fin 1))
       = Inr (ColorRGB (Fin 0) (Fin 0) (Fin 0))"
proof -
  have a: "observedArea (point_light_at (Vector3 (Fin 0) (Fin 0) (Fin (- 1))) (Fin 1)) hit_facing_z < Fin 0"
    by (simp add: observedArea_light_behind flt_ops)
  have b: "m_CurrentLightingMode (renderer_in_mode Combined) = ObservedArea
             \<or> m_CurrentLightingMode (renderer_in_mode Combined) = Combined"
    by (simp add: renderer_in_mode_def)
  have c: "hit_materialIndex hit_facing_z < length [Material_SolidColor White]"
    by (simp add: hit_facing_z_def)
  have d: "m_CurrentLightingMode (renderer_in_mode Combined) = Combined"
    by (simp add: renderer_in_mode_def)
  from a c d negative_observedArea_discarded [OF a b TrueI c] show ?thesis by simp
qed

text \<open>The claim as stated fails in BRDF mode: a light behind the surface (observed area -1)
  adds the material's colour.\<close>

theorem BRDF_mode_adds_with_negative_observedArea:
  "observedArea (point_light_at (Vector3 (Fin 0) (Fin 0) (Fin (- 1))) (Fin 1)) hit_facing_z < Fin 0
   \<and> m_CurrentLightingMode (renderer_in_mode BRDF) = BRDF
   \<and> light_step True const_BRDFs (renderer_in_mode BRDF) empty_scene [Material_SolidColor White]
        (Vector3 (Fin 0) (Fin 0) (Fin 1)) 0 (Fin 0) (Fin 1) hit_facing_z
        (ColorRGB (Fin 0) (Fin 0) (Fin 0))
        (point_light_at (Vector3 (Fin 0) (Fin 0) (Fin (- 1))) (Fin 1))
       = Inr (ColorRGB (Fin 1) (Fin 1) (Fin 1))"
proof -
  have a: "observedArea (point_light_at (Vector3 (Fin 0) (Fin 0) (Fin (- 1))) (Fin 1)) hit_facing_z < Fin 0"
    by (simp add: observedArea_light_behind flt_ops)
  have i: "hit_materialIndex hit_facing_z = 0" by (simp add: hit_facing_z_def)
  have d: "m_CurrentLightingMode (renderer_in_mode BRDF) = BRDF"
    by (simp add: renderer_in_mode_def)
  have b: "light_step True const_BRDFs (renderer_in_mode BRDF) empty_scene [Material_SolidColor White]
        (Vector3 (Fin 0) (Fin 0) (Fin 1)) 0 (Fin 0) (Fin 1) hit_facing_z
        (ColorRGB (Fin 0) (Fin 0) (Fin 0))
        (point_light_at (Vector3 (Fin 0) (Fin 0) (Fin (- 1))) (Fin 1))
       = Inr (ColorRGB (Fin 1) (Fin 1) (Fin 1))"
    by (simp add: light_step_def renderer_in_mode_def empty_scene_def GetRadiance_def material_at_def
        i White_def plus_ColorRGB_def flt_ops)
  from a b d show ?thesis by simp
qed

section \<open>Radiance of a light\<close>

text \<open>
  C4. The claim: \<^verbatim>\<open>GetRadiance\<close> returns intensity times colour over the squared distance
  for a point light. The code is the placeholder \<^verbatim>\<open>assert(false && "No Implemented Yet!");
  return {};\<close>: for the white point light of intensity 4 at the origin and the target
  (2, 0, 0), where the claim gives (1, 1, 1), it returns black when assertions are compiled
  out and aborts otherwise.
\<close>

theorem GetRadiance_not_implemented:
  "GetRadiance True (point_light_at (Vector3 (Fin 0) (Fin 0) (Fin 0)) (Fin 4)) (Vector3 (Fin 2) (Fin 0) (Fin 0))
     = Inr (ColorRGB (Fin 0) (Fin 0) (Fin 0))
   \<and> GetRadiance False (point_light_at (Vector3 (Fin 0) (Fin 0) (Fin 0)) (Fin 4)) (Vector3 (Fin 2) (Fin 0) (Fin 0))
     = Inl AssertionFailed"
  by (simp add: GetRadiance_def flt_ops)

section \<open>A ray parallel to a plane\<close>

lemma div_zero_not_between:
  assumes "is_zero z" "rmax \<noteq> PInf" "rmin \<noteq> NInf"
  shows "\<not> (rmin \<le> a / z \<and> a / z \<le> rmax)"
  using divide_by_zero [OF assms(1), of a] assms(2,3)
  by (cases rmin; cases rmax) (auto simp add: less_eq_flt_def)

text \<open>
  C5. For every plane and every ray for which the computed dot(rayDirection, planeNormal)
  is zero (of either sign) and whose interval is bounded (\<^verbatim>\<open>ray.max\<close> is not plus infinity
  and \<^verbatim>\<open>ray.min\<close> is not minus infinity), \<^verbatim>\<open>HitTest_Plane\<close> reports no hit and leaves the
  hit record as it is. The function has no guard on the denominator: the quotient is an
  infinity or NaN, and the interval test fails.
\<close>

theorem HitTest_Plane_parallel_no_hit:
  assumes "is_zero (Dot (ray_direction ray) (plane_normal plane))"
    and "ray_max ray \<noteq> PInf"
    and "ray_min ray \<noteq> NInf"
  shows "HitTest_Plane plane ray hitRecord ignoreHitRecord = (False, hitRecord)"
  using div_zero_not_between [OF assms]
  by (simp add: HitTest_Plane_def Let_def)

theorem HitTest_Plane_parallel_no_hit_witness:
  "is_zero (Dot (ray_direction (ray_along_x FLT_MAX)) (plane_normal plane_above))
   \<and> ray_max (ray_along_x FLT_MAX) \<noteq> PInf
   \<and> ray_min (ray_along_x FLT_MAX) \<noteq> NInf
   \<and> HitTest_Plane plane_above (ray_along_x FLT_MAX) HitRecord_default False
       = (False, HitRecord_default)"
proof -
  have a: "is_zero (Dot (ray_direction (ray_along_x FLT_MAX)) (plane_normal plane_above))"
    by (simp add: ray_along_x_def plane_above_def Dot_def flt_ops)
  have b: "ray_max (ray_along_x FLT_MAX) \<noteq> PInf" by (simp add: ray_along_x_def FLT_MAX_def)
  have c: "ray_min (ray_along_x FLT_MAX) \<noteq> NInf" by (simp add: ray_along_x_def lit_0_0001_def)
  from a b c HitTest_Plane_parallel_no_hit [OF a b c] show ?thesis by simp
qed

text \<open>The claim as stated fails for a ray whose interval reaches to infinity: the ray from
  the origin along +x is parallel to the plane y = 1, the quotient is 1 / 0 = plus infinity,
  and with \<^verbatim>\<open>ray.max\<close> plus infinity both forms of the test report a hit at t = plus
  infinity.\<close>

theorem HitTest_Plane_parallel_unbounded_hit:
  "Dot (ray_direction (ray_along_x PInf)) (plane_normal plane_above) = Fin 0
   \<and> HitTest_Plane plane_above (ray_along_x PInf) HitRecord_default False
       = (True, HitRecord_default\<lparr>didHit := True, hit_materialIndex := 0,
              hit_normal := Vector3 (Fin 0) (Fin 1) (Fin 0),
              hit_origin := Vector3 (Fin 0) (Fin 0) (Fin 0), hit_t := PInf\<rparr>)
   \<and> HitTest_Plane_any plane_above (ray_along_x PInf)"
  by (simp add: HitTest_Plane_def HitTest_Plane_any_def plane_above_def ray_along_x_def Dot_def Let_def
       minus_Vector3_def flt_ops lit_0_0001_def)

section \<open>The specular division of the Cook-Torrance material\<close>

lemma times_nan_left: "is_nan a \<Longrightarrow> is_nan (a * b)"
  by (cases a) (simp_all add: flt_ops)

lemma specular_factor_at_zero:
  assumes "is_zero a \<or> is_zero b"
  shows "\<not> is_finite (Fin 1 / (Fin 4 * a * b))"
proof -
  have d: "is_nan (Fin 4 * a * b) \<or> is_zero (Fin 4 * a * b)"
  proof (cases "is_zero a")
    case True
    then have "is_nan (Fin 4 * a) \<or> is_zero (Fin 4 * a)" by (rule times_zero_right)
    then show ?thesis using times_nan_left times_zero_left by blast
  next
    case False
    with assms have "is_zero b" by simp
    then show ?thesis by (rule times_zero_right)
  qed
  then show ?thesis
  proof
    assume "is_nan (Fin 4 * a * b)"
    then show ?thesis by (simp add: divide_by_nan)
  next
    assume "is_zero (Fin 4 * a * b)"
    then show ?thesis using divide_by_zero [of "Fin 4 * a * b" "Fin 1"] by auto
  qed
qed

text \<open>
  C6. The division by 4 * dot(v, normal) * dot(l, normal) in the Cook-Torrance \<^verbatim>\<open>Shade\<close>
  has no guard: at a grazing angle, where the computed dot(v, normal) or dot(l, normal) is
  zero, every channel of the colour returned is infinite or NaN, whatever the functions of
  BRDFs.h return.
\<close>

theorem CookTorrence_Shade_unguarded:
  assumes "is_zero (Dot v (hit_normal hitRecord)) \<or> is_zero (Dot l (hit_normal hitRecord))"
  shows "\<not> is_finite (cr (Shade brdf (Material_CookTorrence m_Albedo m_Metalness m_Roughness) hitRecord l v))
       \<and> \<not> is_finite (cg (Shade brdf (Material_CookTorrence m_Albedo m_Metalness m_Roughness) hitRecord l v))
       \<and> \<not> is_finite (cb (Shade brdf (Material_CookTorrence m_Albedo m_Metalness m_Roughness) hitRecord l v))"
  using specular_factor_at_zero [OF assms]
  by (simp add: Shade_CookTorrence_def Let_def plus_ColorRGB_def cscale_def
        times_nonfinite plus_nonfinite)

theorem CookTorrence_Shade_unguarded_witness:
  "is_zero (Dot (Vector3 (Fin 1) (Fin 0) (Fin 0)) (hit_normal hit_facing_z))
   \<and> \<not> is_finite (cr (Shade const_BRDFs copper hit_facing_z
            (Vector3 (Fin 1) (Fin 0) (Fin 0)) (Vector3 (Fin 0) (Fin 0) (Fin (- 1)))))
   \<and> \<not> is_finite (cg (Shade const_BRDFs copper hit_facing_z
            (Vector3 (Fin 1) (Fin 0) (Fin 0)) (Vector3 (Fin 0) (Fin 0) (Fin (- 1)))))
   \<and> \<not> is_finite (cb (Shade const_BRDFs copper hit_facing_z
            (Vector3 (Fin 1) (Fin 0) (Fin 0)) (Vector3 (Fin 0) (Fin 0) (Fin (- 1)))))"
proof -
  have d: "is_zero (Dot (Vector3 (Fin 1) (Fin 0) (Fin 0)) (hit_normal hit_facing_z))"
    by (simp add: Dot_def hit_facing_z_def flt_ops)
  have h: "is_zero (Dot (Vector3 (Fin 0) (Fin 0) (Fin (- 1))) (hit_normal hit_facing_z))
         \<or> is_zero (Dot (Vector3 (Fin 1) (Fin 0) (Fin 0)) (hit_normal hit_facing_z))"
    using d by simp
  from d
    CookTorrence_Shade_unguarded [where brdf = const_BRDFs
      and v = "Vector3 (Fin 0) (Fin 0) (Fin (- 1))" and l = "Vector3 (Fin 1) (Fin 0) (Fin 0)"
      and m_Albedo = "ColorRGB (Fin (16022241 / 2 ^ 24)) (Fin (10687087 / 2 ^ 24)) (Fin (9026142 / 2 ^ 24))"
      and m_Metalness = "Fin 1" and m_Roughness = "Fin (13421773 / 2 ^ 27)" and hitRecord = hit_facing_z,
      OF h]
  show ?thesis by (simp add: copper_def)
qed

text \<open>The claim as stated fails at a grazing view direction: with the normal (0, 0, 1), the
  light direction (0, 0, 1) and the view direction (1, 0, 0), the denominator is
  4 * 0 * 1 = 0 and every channel of the colour is plus infinity.\<close>

theorem CookTorrence_Shade_grazing_infinite:
  "Dot (Vector3 (Fin 1) (Fin 0) (Fin 0)) (hit_normal hit_facing_z) = Fin 0
   \<and> Shade const_BRDFs copper hit_facing_z (Vector3 (Fin 0) (Fin 0) (Fin 1)) (Vector3 (Fin 1) (Fin 0) (Fin 0))
       = ColorRGB PInf PInf PInf"
proof -
  have dv: "Dot (Vector3 (Fin 1) (Fin 0) (Fin 0)) (hit_normal hit_facing_z) = Fin 0"
    by (simp add: Dot_def hit_facing_z_def flt_ops)
  have dl: "Dot (Vector3 (Fin 0) (Fin 0) (Fin 1)) (hit_normal hit_facing_z) = Fin 1"
    by (simp add: Dot_def hit_facing_z_def flt_ops)
  have f: "Fin 1 / (Fin 4 * Fin 0 * Fin 1) = PInf"
    by (simp add: flt_ops)
  have s: "Shade const_BRDFs copper hit_facing_z (Vector3 (Fin 0) (Fin 0) (Fin 1)) (Vector3 (Fin 1) (Fin 0) (Fin 0))
       = ColorRGB PInf PInf PInf"
    by (simp add: copper_def Shade_CookTorrence_def Let_def dv dl f const_BRDFs_def
        White_def cscale_def plus_ColorRGB_def flt_ops)
  from dv s show ?thesis by simp
qed

section \<open>Translation matrices\<close>

text \<open>
  C7. The claim: both overloads of \<^verbatim>\<open>CreateTranslation\<close> give a matrix that maps p to p + t
  under \<^verbatim>\<open>TransformPoint\<close>. The overload taking a \<^verbatim>\<open>Vector3\<close> stores t in \<^verbatim>\<open>data[3]\<close>
  and does; the overload taking three scalars stores them in the fourth components of
  \<^verbatim>\<open>data[0]\<close>, \<^verbatim>\<open>data[1]\<close> and \<^verbatim>\<open>data[2]\<close>, which \<^verbatim>\<open>TransformPoint\<close> never reads, and
  leaves \<^verbatim>\<open>data[3]\<close> at (0, 0, 0, 1): for t = (1, 2, 3) it maps the origin to the origin,
  not to (1, 2, 3).
\<close>

theorem CreateTranslation_scalars_does_not_translate:
  "TransformPoint (CreateTranslation3 (Fin 1) (Fin 2) (Fin 3)) (Vector3 (Fin 0) (Fin 0) (Fin 0))
     = Vector3 (Fin 0) (Fin 0) (Fin 0)
   \<and> TransformPoint (CreateTranslation (Vector3 (Fin 1) (Fin 2) (Fin 3))) (Vector3 (Fin 0) (Fin 0) (Fin 0))
     = Vector3 (Fin 1) (Fin 2) (Fin 3)"
  by (simp add: TransformPoint_def TransformPoint3_def CreateTranslation3_def CreateTranslation_def
        Matrix_of_axes_def Vector4_of_def UnitX_def UnitY_def UnitZ_def scale4_def flt_ops)

section \<open>The any-hit form of the hit tests\<close>

text \<open>
  C8. For every sphere, every plane and every ray, the any-hit form of the hit test (the
  two-argument overload, and the four-argument function called with
  \<^verbatim>\<open>ignoreHitRecord\<close> true) returns true exactly when the record-building form returns
  true, which is exactly when the record-building form sets \<^verbatim>\<open>didHit\<close> in a fresh record;
  and the any-hit path returns the caller's hit record unchanged.
\<close>

theorem any_hit_form_agrees:
  "HitTest_Sphere_any sphere ray = fst (HitTest_Sphere sphere ray hitRecord False)
   \<and> fst (HitTest_Sphere sphere ray hitRecord True) = fst (HitTest_Sphere sphere ray hitRecord False)
   \<and> snd (HitTest_Sphere sphere ray hitRecord True) = hitRecord
   \<and> didHit (snd (HitTest_Sphere sphere ray HitRecord_default False))
       = fst (HitTest_Sphere sphere ray HitRecord_default True)
   \<and> HitTest_Plane_any plane ray = fst (HitTest_Plane plane ray hitRecord False)
   \<and> fst (HitTest_Plane plane ray hitRecord True) = fst (HitTest_Plane plane ray hitRecord False)
   \<and> snd (HitTest_Plane plane ray hitRecord True) = hitRecord
   \<and> didHit (snd (HitTest_Plane plane ray HitRecord_default False))
       = fst (HitTest_Plane plane ray HitRecord_default True)"
proof -
  have s1: "HitTest_Sphere_any sphere ray = fst (HitTest_Sphere sphere ray hitRecord False)"
    by (simp add: HitTest_Sphere_def HitTest_Sphere_any_def Let_def)
  have s2: "fst (HitTest_Sphere sphere ray hitRecord True) = fst (HitTest_Sphere sphere ray hitRecord False)"
    by (simp add: HitTest_Sphere_def Let_def)
  have s3: "snd (HitTest_Sphere sphere ray hitRecord True) = hitRecord"
    by (simp add: HitTest_Sphere_def Let_def)
  have s4: "didHit (snd (HitTest_Sphere sphere ray HitRecord_default False))
              = fst (HitTest_Sphere sphere ray HitRecord_default True)"
    by (simp add: HitTest_Sphere_def HitRecord_default_def Let_def)
  have p1: "HitTest_Plane_any plane ray = fst (HitTest_Plane plane ray hitRecord False)"
    by (simp add: HitTest_Plane_def HitTest_Plane_any_def Let_def)
  have p2: "fst (HitTest_Plane plane ray hitRecord True) = fst (HitTest_Plane plane ray hitRecord False)"
    by (simp add: HitTest_Plane_def Let_def)
  have p3: "snd (HitTest_Plane plane ray hitRecord True) = hitRecord"
    by (simp add: HitTest_Plane_def Let_def)
  have p4: "didHit (snd (HitTest_Plane plane ray HitRecord_default False))
              = fst (HitTest_Plane plane ray HitRecord_default True)"
    by (simp add: HitTest_Plane_def HitRecord_default_def Let_def)
  from s1 s2 s3 s4 p1 p2 p3 p4 show ?thesis by blast
qed

section \<open>Rotation about the Z axis\<close>

lemma CreateRotationX_UnitX: "TransformVector (CreateRotationX (Fin 0)) UnitX = UnitX"
  by (simp add: TransformVector_def TransformVector3_def CreateRotationX_def UnitX_def scale4_def
        flt_ops)

lemma CreateRotationY_UnitY: "TransformVector (CreateRotationY (Fin 0)) UnitY = UnitY"
  by (simp add: TransformVector_def TransformVector3_def CreateRotationY_def UnitY_def scale4_def
        flt_ops)

text \<open>
  C9. The claim: \<^verbatim>\<open>CreateRotationZ(roll)\<close> maps the unit Z vector to itself under
  \<^verbatim>\<open>TransformVector\<close> and preserves the length of every vector. The third stored vector of
  the matrix is (0, 0, 0, 0), where \<^verbatim>\<open>CreateRotationX\<close> and \<^verbatim>\<open>CreateRotationY\<close> keep a 1 on
  the diagonal: for roll = 0 the unit Z vector, of length 1, is mapped to the zero vector,
  of length 0.
\<close>

theorem CreateRotationZ_collapses_UnitZ:
  "TransformVector (CreateRotationZ (Fin 0)) UnitZ = Vector3 (Fin 0) (Fin 0) (Fin 0)
   \<and> Magnitude UnitZ = Fin 1
   \<and> Magnitude (TransformVector (CreateRotationZ (Fin 0)) UnitZ) = Fin 0"
  by (simp add: Magnitude_def TransformVector_def TransformVector3_def CreateRotationZ_def UnitZ_def
        scale4_def flt_ops)

section \<open>A ray that starts inside a sphere\<close>

text \<open>In exact arithmetic the projection \<open>d\<close> of the vector to the centre is below the
  half chord whenever the origin lies strictly inside the sphere (its distance \<open>c\<close> to
  the centre is less than the radius \<open>rr\<close>).\<close>

lemma nearer_root_negative:
  fixes c d rr :: real
  assumes "0 \<le> c" "c < rr"
  shows "d < sqrt (rr * rr - (c * c - d * d))"
proof -
  have "c * c < rr * rr" using assms by (simp add: mult_strict_mono')
  then have lt: "d * d < rr * rr - (c * c - d * d)" by simp
  then have "sqrt (d * d) < sqrt (rr * rr - (c * c - d * d))"
    by (rule real_sqrt_less_mono)
  then have "\<bar>d\<bar> < sqrt (rr * rr - (c * c - d * d))" by simp
  then show ?thesis by linarith
qed


lemma is_finite_uminus: "is_finite (- a) = is_finite a"
  by (cases a) simp_all

lemma is_nan_uminus: "is_nan (- a) = is_nan a"
  by (cases a) simp_all








end
